theory Spec2Isabelle
  imports Complex_Main "HOL-Library.Sublist"
begin

section \<open>Data model\<close>

text \<open>
  The repository is a React front end of three components: \<open>ChatInterface\<close> (the question
  input and the message list), \<open>FileUpload\<close> (file selection and the upload transmission)
  and the page \<open>Home\<close>, which owns the active document and the conversation log and wires
  the other two together. Each \<open>useState\<close> cell is a record field; each handler is a
  function from the state before the event to the state after it, together with the
  callbacks it fires and the network request it issues.

  A JavaScript string is a \<open>string\<close>; a character stands for a code unit below 256.
\<close>

subsection \<open>types/chat: ChatMessage\<close>

datatype role = User | Assistant

record source_citation =
  title :: "string option"
  url :: "string option"
  page :: "rat option"

record chat_message =
  msg_id :: "string option"
  mtype :: role
  content :: string
  sources :: "source_citation list option"

subsection \<open>pages/index: the state of Home\<close>

record home =
  documentId :: "string option"
  documentName :: "string option"
  messages :: "chat_message list"

text \<open>The body of a successful upload response, as \<open>handleUploadComplete\<close> reads it.\<close>

record upload_result =
  r_documentId :: string
  r_documentName :: string

text \<open>The request of \<open>fetch('/api/query', ...)\<close>; the body is the object given to
  \<open>JSON.stringify\<close>.\<close>

record query_body =
  q_documentId :: string
  q_question :: string

record fetch_request =
  f_url :: string
  f_method :: string
  f_headers :: "(string \<times> string) list"
  f_body :: query_body

text \<open>The object \<open>response.json()\<close> yields: \<open>data.answer\<close> and \<open>data.sources\<close>.\<close>

record query_answer =
  answer :: string
  a_sources :: "source_citation list option"

text \<open>
  How the awaited \<open>fetch\<close> ends: the promise rejects (\<open>NetworkFailure\<close>), or a response
  arrives with its \<open>ok\<close> flag and the outcome of \<open>response.json()\<close> (\<open>None\<close> when that
  promise rejects).
\<close>

datatype fetch_outcome = NetworkFailure | Responded bool "query_answer option"

section \<open>pages/index: the handlers of Home\<close>

definition assistant_message :: "string \<Rightarrow> chat_message" where
  "assistant_message text =
     \<lparr>msg_id = None, mtype = Assistant, content = text, sources = None\<rparr>"

definition user_message :: "string \<Rightarrow> chat_message" where
  "user_message text = \<lparr>msg_id = None, mtype = User, content = text, sources = None\<rparr>"

definition handleUploadComplete :: "upload_result \<Rightarrow> home \<Rightarrow> home" where
  "handleUploadComplete result h =
     h\<lparr>documentId := Some (r_documentId result),
       documentName := Some (r_documentName result),
       messages := [assistant_message
         (''Document '' @ [CHR 0x22] @ r_documentName result @ [CHR 0x22] @
          '' has been uploaded successfully. You can now ask questions about it.'')]\<rparr>"

definition handleUploadError :: "string \<Rightarrow> home \<Rightarrow> home" where
  "handleUploadError error h =
     h\<lparr>messages := [assistant_message (''Upload error: '' @ error)]\<rparr>"

definition query_request :: "string \<Rightarrow> string \<Rightarrow> fetch_request" where
  "query_request d message =
     \<lparr>f_url = ''/api/query'', f_method = ''POST'',
      f_headers = [(''Content-Type'', ''application/json'')],
      f_body = \<lparr>q_documentId = d, q_question = message\<rparr>\<rparr>"

text \<open>
  \<open>handleChatSubmit\<close> is an async function. \<open>handleChatSubmit_begin\<close> is what runs
  before the \<open>await\<close>: it returns the state and the request handed to \<open>fetch\<close>, if any.
  \<open>handleChatSubmit_resume\<close> is what runs when the awaited promise settles; its updates
  are functional (\<open>prev => [...prev, m]\<close>), so it appends to the log of that moment.
  The guard \<open>!documentId\<close> holds for \<open>null\<close> and for the empty string.
\<close>

definition handleChatSubmit_begin :: "string \<Rightarrow> home \<Rightarrow> home \<times> fetch_request option" where
  "handleChatSubmit_begin message h =
     (let refused =
        (h\<lparr>messages := messages h @
            [assistant_message ''Please upload a document first before asking questions.'']\<rparr>,
         None)
      in case documentId h of
           None \<Rightarrow> refused
         | Some d \<Rightarrow>
             if d = [] then refused
             else (h\<lparr>messages := messages h @ [user_message message]\<rparr>,
                   Some (query_request d message)))"

definition handleChatSubmit_resume :: "fetch_outcome \<Rightarrow> home \<Rightarrow> home" where
  "handleChatSubmit_resume outcome h =
     (case outcome of
        Responded True (Some data) \<Rightarrow>
          h\<lparr>messages := messages h @
              [\<lparr>msg_id = None, mtype = Assistant, content = answer data,
                sources = a_sources data\<rparr>]\<rparr>
      | _ \<Rightarrow>
          h\<lparr>messages := messages h @
              [assistant_message ''Sorry, there was an error processing your question.'']\<rparr>)"

section \<open>components/ChatInterface\<close>

text \<open>
  \<open>input.trim()\<close> removes white space and line terminators from both ends. Among the code
  units below 256 these are tab, line feed, vertical tab, form feed, carriage return, space
  and the no-break space.
\<close>

definition js_whitespace :: "char \<Rightarrow> bool" where
  "js_whitespace c =
     (c = CHR 0x09 \<or> c = CHR 0x0A \<or> c = CHR 0x0B \<or> c = CHR 0x0C \<or> c = CHR 0x0D \<or>
      c = CHR 0x20 \<or> c = CHR 0xA0)"

definition trim :: "string \<Rightarrow> string" where
  "trim s = rev (dropWhile js_whitespace (rev (dropWhile js_whitespace s)))"

text \<open>
  The props of \<open>ChatInterface\<close> that its logic reads. \<open>isLoading\<close> is optional and
  defaults to \<open>false\<close>. \<open>Home\<close> renders the component with \<open>messages\<close>,
  \<open>onSendMessage\<close> and \<open>placeholder\<close> only.
\<close>

definition isLoading_default :: bool where
  "isLoading_default = False"

definition isLoading_prop :: "bool option \<Rightarrow> bool" where
  "isLoading_prop given = (case given of None \<Rightarrow> isLoading_default | Some b \<Rightarrow> b)"

definition home_passes_isLoading :: "home \<Rightarrow> bool option" where
  "home_passes_isLoading h = None"

text \<open>The guard of \<open>handleSendMessage\<close>, which is also the button's \<open>disabled\<close>.\<close>

definition send_blocked :: "bool \<Rightarrow> string \<Rightarrow> bool" where
  "send_blocked isLoading input = (trim input = [] \<or> isLoading)"

text \<open>
  What \<open>ChatInterface\<close> renders in the list item of one source:
  \<open>{source.title || source.url}\<close> and \<open>{source.page && ` (page ${source.page})`}\<close>.
  React renders a string or a number as text and \<open>undefined\<close> as nothing. The number
  \<open>0\<close> is falsy, so \<open>source.page && ...\<close> is then the number itself. \<open>numText\<close> is the
  runtime's conversion of a number to a string.
\<close>

definition source_label :: "source_citation \<Rightarrow> string" where
  "source_label s =
     (case title s of
        Some t \<Rightarrow> if t \<noteq> [] then t else (case url s of Some u \<Rightarrow> u | None \<Rightarrow> [])
      | None \<Rightarrow> (case url s of Some u \<Rightarrow> u | None \<Rightarrow> []))"

definition page_label :: "(rat \<Rightarrow> string) \<Rightarrow> source_citation \<Rightarrow> string" where
  "page_label numText s =
     (case page s of
        None \<Rightarrow> []
      | Some p \<Rightarrow> if p = 0 then numText p else '' (page '' @ numText p @ '')'')"

definition render_source :: "(rat \<Rightarrow> string) \<Rightarrow> source_citation \<Rightarrow> string" where
  "render_source numText s = source_label s @ page_label numText s"

text \<open>The items of the \<open>Sources:\<close> list of a message; the list is rendered only when
  \<open>message.sources\<close> is there and not empty.\<close>

definition render_sources :: "(rat \<Rightarrow> string) \<Rightarrow> chat_message \<Rightarrow> string list" where
  "render_sources numText m =
     (case sources m of None \<Rightarrow> [] | Some ss \<Rightarrow> map (render_source numText) ss)"

section \<open>components/FileUpload\<close>

record file_desc =
  f_name :: string
  f_type :: string
  f_size :: nat

text \<open>
  The value of \<open>Math.round((event.loaded / event.total) * 100)\<close>: an integer, or
  \<open>NaN\<close> (from \<open>0 / 0\<close>), or \<open>Infinity\<close> (from a positive number over \<open>0\<close>).
\<close>

datatype progress_value = Rounded int | NaN | Infinity

text \<open>The state of the component; \<open>file_state\<close> is the cell \<open>file\<close>.\<close>

record file_upload =
  file_state :: "file_desc option"
  isUploading :: bool
  uploadProgress :: progress_value
  dragActive :: bool

text \<open>The calls a handler makes to the props \<open>onUploadComplete\<close> and \<open>onUploadError\<close>.\<close>

datatype upload_callback = OnUploadComplete upload_result | OnUploadError string

definition maxFileSize_default :: nat where
  "maxFileSize_default = 5 * 1024 * 1024"

definition size_error :: "(rat \<Rightarrow> string) \<Rightarrow> nat \<Rightarrow> string" where
  "size_error numText maxFileSize =
     ''File size exceeds '' @ numText (of_nat maxFileSize / (1024 * 1024)) @ ''MB limit''"

text \<open>
  \<open>handleFileSelect\<close> and \<open>handleDrop\<close> get the event's file list: \<open>None\<close> for
  \<open>null\<close>, otherwise the files in order.
\<close>

definition handleFileSelect ::
  "(rat \<Rightarrow> string) \<Rightarrow> nat \<Rightarrow> file_desc list option \<Rightarrow> file_upload
     \<Rightarrow> file_upload \<times> upload_callback list" where
  "handleFileSelect numText maxFileSize files st =
     (case files of
        None \<Rightarrow> (st, [])
      | Some [] \<Rightarrow> (st, [])
      | Some (selectedFile # _) \<Rightarrow>
          if f_type selectedFile \<noteq> ''application/pdf''
          then (st, [OnUploadError ''Only PDF files are allowed''])
          else if f_size selectedFile > maxFileSize
          then (st, [OnUploadError (size_error numText maxFileSize)])
          else (st\<lparr>file_state := Some selectedFile, uploadProgress := Rounded 0\<rparr>, []))"

definition handleDragOver :: "file_upload \<Rightarrow> file_upload" where
  "handleDragOver st = st\<lparr>dragActive := True\<rparr>"

definition handleDragLeave :: "file_upload \<Rightarrow> file_upload" where
  "handleDragLeave st = st\<lparr>dragActive := False\<rparr>"

definition handleDrop ::
  "(rat \<Rightarrow> string) \<Rightarrow> nat \<Rightarrow> file_desc list option \<Rightarrow> file_upload
     \<Rightarrow> file_upload \<times> upload_callback list" where
  "handleDrop numText maxFileSize files st =
     (let st1 = st\<lparr>dragActive := False\<rparr>
      in case files of
        None \<Rightarrow> (st1, [])
      | Some [] \<Rightarrow> (st1, [])
      | Some (droppedFile # _) \<Rightarrow>
          if f_type droppedFile \<noteq> ''application/pdf''
          then (st1, [OnUploadError ''Only PDF files are allowed''])
          else if f_size droppedFile > maxFileSize
          then (st1, [OnUploadError (size_error numText maxFileSize)])
          else (st1\<lparr>file_state := Some droppedFile, uploadProgress := Rounded 0\<rparr>, []))"

text \<open>The request \<open>handleUpload\<close> sends: the method, the URL and the form fields.\<close>

record upload_request =
  u_method :: string
  u_url :: string
  u_form :: "(string \<times> file_desc) list"

text \<open>
  What a statement of the \<open>try\<close> block of \<open>handleUpload\<close> may throw: an \<open>Error\<close>
  with its message, or another value.
\<close>

datatype thrown = ThrownError string | ThrownOther

text \<open>
  \<open>handleUpload\<close>. The argument \<open>thr\<close> says whether the \<open>try\<close> block throws on its
  way to \<open>xhr.send\<close>; if it does, no transmission starts and the \<open>catch\<close> block runs.
  The result is the state, the callbacks fired, and the transmission opened, if any.
\<close>

definition handleUpload ::
  "thrown option \<Rightarrow> file_upload
     \<Rightarrow> file_upload \<times> upload_callback list \<times> upload_request option" where
  "handleUpload thr st =
     (case file_state st of
        None \<Rightarrow> (st, [], None)
      | Some f \<Rightarrow>
          (case thr of
             None \<Rightarrow>
               (st\<lparr>isUploading := True\<rparr>, [],
                Some \<lparr>u_method = ''POST'', u_url = ''/api/upload'', u_form = [(''file'', f)]\<rparr>)
           | Some e \<Rightarrow>
               (st\<lparr>isUploading := False\<rparr>,
                [OnUploadError (case e of ThrownError m \<Rightarrow> m | ThrownOther \<Rightarrow> ''Upload failed'')],
                None)))"

text \<open>The upload button is rendered with \<open>disabled={!file || isUploading}\<close>; a disabled
  button delivers no click.\<close>

definition upload_disabled :: "file_upload \<Rightarrow> bool" where
  "upload_disabled st = (file_state st = None \<or> isUploading st)"

definition click_upload ::
  "thrown option \<Rightarrow> file_upload
     \<Rightarrow> file_upload \<times> upload_callback list \<times> upload_request option" where
  "click_upload thr st = (if upload_disabled st then (st, [], None) else handleUpload thr st)"

text \<open>
  A progress event of \<open>xhr.upload\<close>. \<open>event.loaded / event.total\<close> and the product
  with 100 are double-precision operations: \<open>fl\<close> is the rounding of an exact result to
  the nearest double. \<open>Math.round\<close> rounds to the nearest integer, a tie upwards.
\<close>

record progress_event =
  lengthComputable :: bool
  ev_loaded :: nat
  ev_total :: nat

definition math_round :: "rat \<Rightarrow> int" where
  "math_round x = \<lfloor>x + 1 / 2\<rfloor>"

definition progress_of :: "(rat \<Rightarrow> rat) \<Rightarrow> progress_event \<Rightarrow> progress_value" where
  "progress_of fl ev =
     (if ev_total ev = 0 then (if ev_loaded ev = 0 then NaN else Infinity)
      else Rounded (math_round (fl (fl (of_nat (ev_loaded ev) / of_nat (ev_total ev)) * 100))))"

definition on_progress :: "(rat \<Rightarrow> rat) \<Rightarrow> progress_event \<Rightarrow> file_upload \<Rightarrow> file_upload" where
  "on_progress fl ev st =
     (if lengthComputable ev then st\<lparr>uploadProgress := progress_of fl ev\<rparr> else st)"

text \<open>
  The response \<open>xhr.onload\<close> reads: the status, the status text, and what
  \<open>JSON.parse(xhr.responseText)\<close> gives (\<open>None\<close> when it throws a \<open>SyntaxError\<close>).
\<close>

record xhr_response =
  status :: nat
  statusText :: string
  parsed :: "upload_result option"

datatype js_error = SyntaxError

text \<open>
  \<open>xhr.onload\<close>. When \<open>JSON.parse\<close> throws, the exception leaves the handler: nothing
  after it in the handler runs, and the \<open>try\<close> of \<open>handleUpload\<close> has long returned.
\<close>

definition xhr_onload ::
  "xhr_response \<Rightarrow> file_upload \<Rightarrow> js_error + file_upload \<times> upload_callback list" where
  "xhr_onload resp st =
     (if status resp = 200
      then (case parsed resp of
              None \<Rightarrow> Inl SyntaxError
            | Some response \<Rightarrow> Inr (st\<lparr>isUploading := False\<rparr>, [OnUploadComplete response]))
      else Inr (st\<lparr>isUploading := False\<rparr>,
                [OnUploadError (if statusText resp \<noteq> [] then statusText resp
                                else ''Upload failed'')]))"

definition xhr_onerror :: "file_upload \<Rightarrow> file_upload \<times> upload_callback list" where
  "xhr_onerror st = (st\<lparr>isUploading := False\<rparr>, [OnUploadError ''Network error during upload''])"

section \<open>The page as a whole\<close>

text \<open>
  What the language runtime supplies: \<open>rt_numText\<close> converts a number to a string (in
  template literals and in rendered text), \<open>rt_fl\<close> rounds the exact result of an
  arithmetic operation to a double.
\<close>

record runtime =
  rt_numText :: "rat \<Rightarrow> string"
  rt_fl :: "rat \<Rightarrow> rat"

text \<open>
  The state of the page: the cells of the three components, the \<open>fetch\<close> calls that
  have not settled yet (\<open>pending\<close>) and the upload transmissions sent and not yet
  finished (\<open>transmissions\<close>).
\<close>

record app =
  home_st :: home
  input :: string
  upload_st :: file_upload
  pending :: "fetch_request list"
  transmissions :: "upload_request list"

definition init :: app where
  "init =
     \<lparr>home_st = \<lparr>documentId = None, documentName = None, messages = []\<rparr>,
      input = [],
      upload_st = \<lparr>file_state = None, isUploading = False, uploadProgress = Rounded 0,
                   dragActive = False\<rparr>,
      pending = [],
      transmissions = []\<rparr>"

text \<open>\<open>Home\<close> passes \<open>handleUploadComplete\<close> and \<open>handleUploadError\<close> to
  \<open>FileUpload\<close>, and no \<open>maxFileSize\<close>.\<close>

definition fire :: "upload_callback \<Rightarrow> home \<Rightarrow> home" where
  "fire cb h =
     (case cb of
        OnUploadComplete result \<Rightarrow> handleUploadComplete result h
      | OnUploadError error \<Rightarrow> handleUploadError error h)"

definition upload_step :: "file_upload \<times> upload_callback list \<Rightarrow> app \<Rightarrow> app" where
  "upload_step r w = w\<lparr>upload_st := fst r, home_st := fold fire (snd r) (home_st w)\<rparr>"

text \<open>
  \<open>handleSendMessage\<close> of \<open>ChatInterface\<close>, with \<open>onSendMessage\<close> bound to
  \<open>handleChatSubmit\<close>: after the guard it awaits \<open>handleChatSubmit\<close> and then clears
  the input. When no request is issued the awaited promise is already resolved, and the
  input is cleared before any other event; otherwise the input is cleared when the
  request settles (\<open>fetch_settles\<close>).
\<close>

definition handleSendMessage :: "app \<Rightarrow> app" where
  "handleSendMessage w =
     (if send_blocked (isLoading_prop (home_passes_isLoading (home_st w))) (input w) then w
      else case handleChatSubmit_begin (input w) (home_st w) of
             (h, None) \<Rightarrow> w\<lparr>home_st := h, input := []\<rparr>
           | (h, Some req) \<Rightarrow> w\<lparr>home_st := h, pending := pending w @ [req]\<rparr>)"

definition fetch_settles :: "nat \<Rightarrow> fetch_outcome \<Rightarrow> app \<Rightarrow> app" where
  "fetch_settles i outcome w =
     (if i < length (pending w)
      then w\<lparr>home_st := handleChatSubmit_resume outcome (home_st w),
             input := [],
             pending := take i (pending w) @ drop (Suc i) (pending w)\<rparr>
      else w)"

text \<open>
  The events of the page. \<open>SendMessage\<close> is a click on the send button or the Enter
  key; \<open>FetchSettles i\<close> settles the \<open>i\<close>-th pending request; \<open>Progress\<close>,
  \<open>Load\<close> and \<open>NetworkError\<close> are the events of the transmission in progress.
\<close>

datatype event =
    ChangeInput string
  | SendMessage
  | FetchSettles nat fetch_outcome
  | FileSelect "file_desc list option"
  | DragOver
  | DragLeave
  | Drop "file_desc list option"
  | ClickUpload "thrown option"
  | Progress progress_event
  | Load xhr_response
  | NetworkError

fun step :: "runtime \<Rightarrow> app \<Rightarrow> event \<Rightarrow> app" where
  "step rt w (ChangeInput s) =
     (if isLoading_prop (home_passes_isLoading (home_st w)) then w else w\<lparr>input := s\<rparr>)"
| "step rt w SendMessage = handleSendMessage w"
| "step rt w (FetchSettles i outcome) = fetch_settles i outcome w"
| "step rt w (FileSelect files) =
     upload_step (handleFileSelect (rt_numText rt) maxFileSize_default files (upload_st w)) w"
| "step rt w DragOver = w\<lparr>upload_st := handleDragOver (upload_st w)\<rparr>"
| "step rt w DragLeave = w\<lparr>upload_st := handleDragLeave (upload_st w)\<rparr>"
| "step rt w (Drop files) =
     upload_step (handleDrop (rt_numText rt) maxFileSize_default files (upload_st w)) w"
| "step rt w (ClickUpload thr) =
     (case click_upload thr (upload_st w) of
        (st, cbs, req) \<Rightarrow>
          (upload_step (st, cbs) w)
            \<lparr>transmissions := transmissions w @ (case req of None \<Rightarrow> [] | Some r \<Rightarrow> [r])\<rparr>)"
| "step rt w (Progress ev) =
     (if transmissions w = [] then w
      else w\<lparr>upload_st := on_progress (rt_fl rt) ev (upload_st w)\<rparr>)"
| "step rt w (Load resp) =
     (if transmissions w = [] then w
      else case xhr_onload resp (upload_st w) of
             Inl e \<Rightarrow> w\<lparr>transmissions := tl (transmissions w)\<rparr>
           | Inr r \<Rightarrow> (upload_step r w)\<lparr>transmissions := tl (transmissions w)\<rparr>)"
| "step rt w NetworkError =
     (if transmissions w = [] then w
      else (upload_step (xhr_onerror (upload_st w)) w)
             \<lparr>transmissions := tl (transmissions w)\<rparr>)"

definition run :: "runtime \<Rightarrow> app \<Rightarrow> event list \<Rightarrow> app" where
  "run rt w evs = foldl (step rt) w evs"

text \<open>
  A runtime to run the page on concrete inputs: whole numbers are printed in decimal, and
  arithmetic is exact.
\<close>

definition digit :: "nat \<Rightarrow> char" where
  "digit n = ''0123456789'' ! n"

fun nat_text :: "nat \<Rightarrow> string" where
  "nat_text n = (if n < 10 then [digit n] else nat_text (n div 10) @ [digit (n mod 10)])"

declare nat_text.simps [simp del]

definition whole_number_text :: "rat \<Rightarrow> string" where
  "whole_number_text q =
     (if q < 0 then ''-'' @ nat_text (nat \<lfloor>- q\<rfloor>) else nat_text (nat \<lfloor>q\<rfloor>))"

definition exact_runtime :: runtime where
  "exact_runtime = \<lparr>rt_numText = whole_number_text, rt_fl = (\<lambda>x. x)\<rparr>"

section \<open>Notions used in the statements\<close>

text \<open>The message a rejected file is reported with: the type is checked first.\<close>

definition validation_error :: "(rat \<Rightarrow> string) \<Rightarrow> nat \<Rightarrow> file_desc \<Rightarrow> string" where
  "validation_error numText maxFileSize f =
     (if f_type f \<noteq> ''application/pdf'' then ''Only PDF files are allowed''
      else size_error numText maxFileSize)"

definition refusal :: chat_message where
  "refusal = assistant_message ''Please upload a document first before asking questions.''"







text \<open>The invariant of the upload: at most one transmission, and none unless the
  component shows itself uploading.\<close>

definition one_in_flight :: "app \<Rightarrow> bool" where
  "one_in_flight w =
     (length (transmissions w) \<le> 1 \<and> (transmissions w = [] \<or> isUploading (upload_st w)))"

text \<open>The component shows itself uploading while nothing is being transmitted.\<close>

definition stuck :: "app \<Rightarrow> bool" where
  "stuck w = (isUploading (upload_st w) \<and> transmissions w = [])"

section \<open>Concrete inputs\<close>

definition pdf_file :: file_desc where
  "pdf_file = \<lparr>f_name = ''Q3-Report.pdf'', f_type = ''application/pdf'', f_size = 1024\<rparr>"

definition text_file :: file_desc where
  "text_file = \<lparr>f_name = ''notes.txt'', f_type = ''text/plain'', f_size = 12\<rparr>"

definition big_pdf :: file_desc where
  "big_pdf = \<lparr>f_name = ''big.pdf'', f_type = ''application/pdf'', f_size = 6000000\<rparr>"

definition holding :: "file_desc \<Rightarrow> file_upload" where
  "holding f = \<lparr>file_state = Some f, isUploading = False, uploadProgress = Rounded 0,
                 dragActive = False\<rparr>"

definition the_upload :: upload_request where
  "the_upload = \<lparr>u_method = ''POST'', u_url = ''/api/upload'', u_form = [(''file'', pdf_file)]\<rparr>"

definition ok_response :: xhr_response where
  "ok_response =
     \<lparr>status = 200, statusText = ''OK'',
      parsed = Some \<lparr>r_documentId = ''doc-1'', r_documentName = ''Q3-Report.pdf''\<rparr>\<rparr>"

text \<open>A response with status 200 whose body is not JSON.\<close>

definition garbled_response :: xhr_response where
  "garbled_response = \<lparr>status = 200, statusText = ''OK'', parsed = None\<rparr>"

text \<open>A response with status 200 whose \<open>documentId\<close> is the empty string.\<close>

definition nameless_response :: xhr_response where
  "nameless_response =
     \<lparr>status = 200, statusText = ''OK'',
      parsed = Some \<lparr>r_documentId = [], r_documentName = ''Q3-Report.pdf''\<rparr>\<rparr>"

definition confirmation :: chat_message where
  "confirmation = assistant_message
     (''Document '' @ [CHR 0x22] @ ''Q3-Report.pdf'' @ [CHR 0x22] @
      '' has been uploaded successfully. You can now ask questions about it.'')"

definition asking :: app where
  "asking = init\<lparr>input := ''What is the revenue?''\<rparr>"

definition uploading_page :: app where
  "uploading_page = run exact_runtime init [FileSelect (Some [pdf_file]), ClickUpload None]"

definition loaded_page :: app where
  "loaded_page =
     run exact_runtime init [FileSelect (Some [pdf_file]), ClickUpload None, Load ok_response]"

definition question_typed :: app where
  "question_typed =
     run exact_runtime init
       [FileSelect (Some [pdf_file]), ClickUpload None, Load ok_response,
        ChangeInput ''What is the revenue?'']"

definition garbled_page :: app where
  "garbled_page =
     run exact_runtime init
       [FileSelect (Some [pdf_file]), ClickUpload None, Load garbled_response]"

definition nameless_page :: app where
  "nameless_page =
     run exact_runtime init
       [FileSelect (Some [pdf_file]), ClickUpload None, Load nameless_response,
        ChangeInput ''What is the revenue?'']"

definition cited :: source_citation where
  "cited = \<lparr>title = Some ''Q3-Report.pdf'', url = None, page = Some 12\<rparr>"

definition the_answer :: query_answer where
  "the_answer = \<lparr>answer = ''Revenue was 4.2M.'', a_sources = Some [cited]\<rparr>"


section \<open>Helper lemmas\<close>

subsection \<open>Evaluation\<close>

lemma trim_question: "trim ''What is the revenue?'' = ''What is the revenue?''"
  by (simp add: trim_def js_whitespace_def)

lemma size_error_default:
  "size_error whole_number_text maxFileSize_default = ''File size exceeds 5MB limit''"
proof -
  have q: "(of_nat maxFileSize_default :: rat) / (1024 * 1024) = 5"
    by (simp add: maxFileSize_default_def)
  have t: "whole_number_text 5 = ''5''"
    by code_simp
  show ?thesis
    unfolding size_error_def q t by simp
qed

lemma validation_error_text_file:
  "validation_error whole_number_text maxFileSize_default text_file = ''Only PDF files are allowed''"
  by (simp add: validation_error_def text_file_def)

lemma validation_error_big_pdf:
  "validation_error whole_number_text maxFileSize_default big_pdf = ''File size exceeds 5MB limit''"
  by (simp add: validation_error_def big_pdf_def size_error_default)

lemma never_loading: "isLoading_prop (home_passes_isLoading h) = False"
  by (simp add: isLoading_prop_def home_passes_isLoading_def isLoading_default_def)

lemma uploading_page_eq:
  "uploading_page =
     init\<lparr>upload_st := (holding pdf_file)\<lparr>isUploading := True\<rparr>, transmissions := [the_upload]\<rparr>"
  by (simp add: uploading_page_def run_def init_def handleFileSelect_def pdf_file_def
      maxFileSize_default_def upload_step_def click_upload_def upload_disabled_def
      handleUpload_def holding_def the_upload_def)

lemma loaded_page_step: "loaded_page = step exact_runtime uploading_page (Load ok_response)"
  by (simp add: loaded_page_def uploading_page_def run_def)

lemma garbled_page_step:
  "garbled_page = step exact_runtime uploading_page (Load garbled_response)"
  by (simp add: garbled_page_def uploading_page_def run_def)

lemma nameless_page_step:
  "nameless_page =
     step exact_runtime (step exact_runtime uploading_page (Load nameless_response))
       (ChangeInput ''What is the revenue?'')"
  by (simp add: nameless_page_def uploading_page_def run_def)

lemma question_typed_step:
  "question_typed = step exact_runtime loaded_page (ChangeInput ''What is the revenue?'')"
  by (simp add: question_typed_def loaded_page_def run_def)

lemma loaded_page_eq:
  "loaded_page =
     init\<lparr>home_st := \<lparr>documentId = Some ''doc-1'', documentName = Some ''Q3-Report.pdf'',
                       messages = [confirmation]\<rparr>,
          upload_st := holding pdf_file\<rparr>"
  by (simp add: loaded_page_step uploading_page_eq init_def xhr_onload_def ok_response_def
      upload_step_def fire_def handleUploadComplete_def confirmation_def holding_def)

lemma garbled_page_eq:
  "garbled_page = init\<lparr>upload_st := (holding pdf_file)\<lparr>isUploading := True\<rparr>\<rparr>"
  by (simp add: garbled_page_step uploading_page_eq init_def xhr_onload_def garbled_response_def
      upload_step_def holding_def)

lemma nameless_page_eq:
  "nameless_page =
     init\<lparr>home_st := \<lparr>documentId = Some [], documentName = Some ''Q3-Report.pdf'',
                       messages = [confirmation]\<rparr>,
          input := ''What is the revenue?'',
          upload_st := holding pdf_file\<rparr>"
  by (simp add: nameless_page_step uploading_page_eq init_def xhr_onload_def
      nameless_response_def upload_step_def fire_def handleUploadComplete_def confirmation_def
      holding_def never_loading)

lemma question_typed_eq:
  "question_typed = loaded_page\<lparr>input := ''What is the revenue?''\<rparr>"
  by (simp add: question_typed_step never_loading)

subsection \<open>The handlers of FileUpload\<close>

lemma select_rejects:
  "f_type f \<noteq> ''application/pdf'' \<or> maxFileSize < f_size f \<Longrightarrow>
   handleFileSelect numText maxFileSize (Some (f # fs)) st =
     (st, [OnUploadError (validation_error numText maxFileSize f)])"
  by (auto simp: handleFileSelect_def validation_error_def)

lemma drop_rejects:
  "f_type f \<noteq> ''application/pdf'' \<or> maxFileSize < f_size f \<Longrightarrow>
   handleDrop numText maxFileSize (Some (f # fs)) st =
     (st\<lparr>dragActive := False\<rparr>, [OnUploadError (validation_error numText maxFileSize f)])"
  by (auto simp: handleDrop_def validation_error_def)

lemma upload_step_simps [simp]:
  "upload_st (upload_step r w) = fst r"
  "transmissions (upload_step r w) = transmissions w"
  "pending (upload_step r w) = pending w"
  "input (upload_step r w) = input w"
  by (simp_all add: upload_step_def)

lemma select_isUploading [simp]:
  "isUploading (fst (handleFileSelect numText m files st)) = isUploading st"
  by (simp add: handleFileSelect_def split: option.splits list.splits)

lemma drop_isUploading [simp]:
  "isUploading (fst (handleDrop numText m files st)) = isUploading st"
  by (simp add: handleDrop_def Let_def split: option.splits list.splits)

lemma click_while_uploading:
  "isUploading st \<Longrightarrow> click_upload thr st = (st, [], None)"
  by (simp add: click_upload_def upload_disabled_def)

lemma click_when_enabled:
  "\<not> isUploading st \<Longrightarrow>
   (\<exists>st' cbs. click_upload thr st = (st', cbs, None) \<and> \<not> isUploading st') \<or>
   (\<exists>st' cbs r. click_upload thr st = (st', cbs, Some r) \<and> isUploading st')"
  by (auto simp: click_upload_def upload_disabled_def handleUpload_def split: option.splits)






text \<open>The failure paths that do clear the flag: another status, a network error, and an
  exception inside \<open>handleUpload\<close>.\<close>

lemma handled_failures_clear_flag:
  "status resp \<noteq> 200 \<Longrightarrow> xhr_onload resp st = Inr (st', cbs) \<Longrightarrow> \<not> isUploading st'"
  "xhr_onerror st = (st', cbs) \<Longrightarrow> \<not> isUploading st'"
  "file_state st = Some f \<Longrightarrow> handleUpload (Some e) st = (st', cbs, req) \<Longrightarrow> \<not> isUploading st'"
  by (auto simp: xhr_onload_def xhr_onerror_def handleUpload_def)

subsection \<open>The conversation log\<close>








lemma send_with_document:
  assumes "documentId (home_st w) = Some d" "d \<noteq> []" "trim (input w) \<noteq> []"
  shows "handleSendMessage w =
           w\<lparr>home_st := (home_st w)\<lparr>messages := messages (home_st w) @ [user_message (input w)]\<rparr>,
             pending := pending w @ [query_request d (input w)]\<rparr>"
  using assms
  by (simp add: handleSendMessage_def send_blocked_def never_loading handleChatSubmit_begin_def)

subsection \<open>Transmissions in flight\<close>

lemma one_in_flight_init: "one_in_flight init"
  by (simp add: one_in_flight_def init_def)

lemma one_in_flight_step:
  assumes "one_in_flight w"
  shows "one_in_flight (step rt w ev)"
proof (cases ev)
  case (ClickUpload thr)
  show ?thesis
  proof (cases "isUploading (upload_st w)")
    case True
    with assms ClickUpload show ?thesis
      by (simp add: click_while_uploading one_in_flight_def)
  next
    case False
    with assms have "transmissions w = []" by (simp add: one_in_flight_def)
    with click_when_enabled [OF False, of thr] ClickUpload show ?thesis
      by (auto simp: one_in_flight_def)
  qed
next
  case (Load resp)
  with assms show ?thesis
    by (cases "transmissions w")
       (auto simp: one_in_flight_def split: sum.splits)
next
  case NetworkError
  with assms show ?thesis
    by (cases "transmissions w") (auto simp: one_in_flight_def)
next
  case (Progress e)
  with assms show ?thesis
    by (auto simp: one_in_flight_def on_progress_def)
next
  case (FetchSettles i outcome)
  with assms show ?thesis
    by (auto simp: one_in_flight_def fetch_settles_def)
next
  case SendMessage
  with assms show ?thesis
    by (auto simp: one_in_flight_def handleSendMessage_def split: prod.splits option.splits)
qed (use assms in \<open>auto simp: one_in_flight_def handleDragOver_def handleDragLeave_def\<close>)

lemma one_in_flight_run: "one_in_flight w \<Longrightarrow> one_in_flight (run rt w evs)"
  unfolding run_def
  by (induction evs arbitrary: w) (simp_all add: one_in_flight_step)

lemma stuck_step: "stuck w \<Longrightarrow> stuck (step rt w ev)"
  by (cases ev)
     (auto simp: stuck_def click_while_uploading fetch_settles_def handleSendMessage_def
        handleDragOver_def handleDragLeave_def split: prod.splits option.splits)

lemma stuck_run: "stuck w \<Longrightarrow> stuck (run rt w evs)"
  unfolding run_def
  by (induction evs arbitrary: w) (simp_all add: stuck_step)

subsection \<open>Progress\<close>










section \<open>Submitting while a request is in flight\<close>

text \<open>
  Claim C1 says that a loading flag is raised for as long as a submission is in flight, so
  that a second submit during that time is a no-op, appending nothing and issuing no
  request. \<open>ChatInterface\<close> has the flag as its prop \<open>isLoading\<close> and tests it in
  \<open>handleSendMessage\<close>, but \<open>Home\<close> never passes it, so it is \<open>false\<close> throughout.
  Here a document is uploaded, the question is typed and submitted twice before any
  answer arrives: after the first submit one request is pending and the flag is still
  down; the second submit appends a second user message and issues a second request.
\<close>

theorem second_submit_in_flight_is_processed:
  "pending (step exact_runtime question_typed SendMessage) =
     [query_request ''doc-1'' ''What is the revenue?''] \<and>
   isLoading_prop (home_passes_isLoading (home_st (step exact_runtime question_typed SendMessage)))
     = False \<and>
   pending (step exact_runtime (step exact_runtime question_typed SendMessage) SendMessage) =
     [query_request ''doc-1'' ''What is the revenue?'',
      query_request ''doc-1'' ''What is the revenue?''] \<and>
   messages (home_st (step exact_runtime (step exact_runtime question_typed SendMessage) SendMessage)) =
     [confirmation, user_message ''What is the revenue?'', user_message ''What is the revenue?'']"
proof -
  let ?q = "''What is the revenue?''"
  let ?w = "question_typed"
  have d: "documentId (home_st ?w) = Some ''doc-1''" and i: "input ?w = ?q"
    and p: "pending ?w = []" and m: "messages (home_st ?w) = [confirmation]"
    by (simp_all add: question_typed_eq loaded_page_eq init_def)
  have t: "trim (input ?w) \<noteq> []" by (simp add: i trim_question)
  have 1: "handleSendMessage ?w =
           ?w\<lparr>home_st := (home_st ?w)\<lparr>messages := [confirmation, user_message ?q]\<rparr>,
              pending := [query_request ''doc-1'' ?q]\<rparr>"
    using send_with_document [OF d _ t] by (simp add: i p m)
  let ?w1 = "handleSendMessage ?w"
  have d1: "documentId (home_st ?w1) = Some ''doc-1''" and i1: "input ?w1 = ?q"
    by (simp_all add: 1 d i)
  have t1: "trim (input ?w1) \<noteq> []" by (simp add: i1 trim_question)
  have 2: "handleSendMessage ?w1 =
           ?w1\<lparr>home_st := (home_st ?w1)\<lparr>messages := messages (home_st ?w1) @ [user_message ?q]\<rparr>,
              pending := pending ?w1 @ [query_request ''doc-1'' ?q]\<rparr>"
    using send_with_document [OF d1 _ t1] by (simp add: i1)
  show ?thesis
    by (simp add: 2 never_loading) (simp add: 1)
qed

section \<open>The conversation log\<close>



section \<open>Failures of the upload\<close>

text \<open>
  Claim C3 says that every failure path of the upload, a success response with an
  unparsable body included, ends with the in-flight flag cleared, so that a new upload
  can be started. In \<open>xhr.onload\<close> the call of \<open>JSON.parse\<close> comes before
  \<open>setIsUploading(false)\<close> and nothing catches what it throws. Here a PDF is selected and
  sent, and the response has status 200 and a body that is not JSON: afterwards no
  transmission is open, \<open>isUploading\<close> is still set, the upload button is disabled, a
  click on it changes nothing, and no later event clears the flag.
\<close>

theorem unparsable_success_leaves_upload_stuck:
  "isUploading (upload_st garbled_page) \<and>
   transmissions garbled_page = [] \<and>
   upload_disabled (upload_st garbled_page) \<and>
   step exact_runtime garbled_page (ClickUpload None) = garbled_page \<and>
   (\<forall>evs. isUploading (upload_st (run exact_runtime garbled_page evs)))"
proof -
  have s: "stuck garbled_page"
    by (simp add: stuck_def garbled_page_eq init_def)
  then have "\<forall>evs. isUploading (upload_st (run exact_runtime garbled_page evs))"
    using stuck_run [OF s] by (simp add: stuck_def)
  moreover have "step exact_runtime garbled_page (ClickUpload None) = garbled_page"
    using s by (simp add: stuck_def click_while_uploading upload_step_def)
  ultimately show ?thesis
    using s by (simp add: stuck_def upload_disabled_def)
qed

section \<open>Progress\<close>



section \<open>One transmission at a time\<close>

text \<open>
  Claim C5: at most one upload transmission is in flight, and a second start while one is
  uploading is a no-op. The upload is started by the upload button only, which is
  disabled while \<open>isUploading\<close> is set: a click then opens no transmission and changes no
  state, and whatever the events from the start of the page, there is never more than
  one transmission open.
\<close>

theorem one_transmission_in_flight:
  "(isUploading (upload_st w) \<longrightarrow> step rt w (ClickUpload thr) = w) \<and>
   length (transmissions (run rt init evs)) \<le> 1"
proof
  show "isUploading (upload_st w) \<longrightarrow> step rt w (ClickUpload thr) = w"
    by (simp add: click_while_uploading upload_step_def)
  from one_in_flight_run [OF one_in_flight_init, of rt evs]
  show "length (transmissions (run rt init evs)) \<le> 1"
    by (simp add: one_in_flight_def)
qed

text \<open>Witness for C5: a PDF is selected and sent, and the button is clicked again.\<close>

theorem one_transmission_in_flight_witness:
  "isUploading (upload_st uploading_page) \<and>
   transmissions uploading_page = [the_upload] \<and>
   step exact_runtime uploading_page (ClickUpload None) = uploading_page \<and>
   length (transmissions
     (run exact_runtime init
        [FileSelect (Some [pdf_file]), ClickUpload None, ClickUpload None])) \<le> 1"
proof -
  have u: "isUploading (upload_st uploading_page)"
    and t: "transmissions uploading_page = [the_upload]"
    by (simp_all add: uploading_page_eq)
  from one_transmission_in_flight
         [of uploading_page exact_runtime None
             "[FileSelect (Some [pdf_file]), ClickUpload None, ClickUpload None]"] u t
  show ?thesis by blast
qed

section \<open>Rejected files\<close>

text \<open>
  Claim C6 says that \<open>selectFile\<close>, given a file that is not a PDF or is too large,
  reports a validation error, clears any prior candidate, changes nothing else, never
  goes to uploading and starts no transmission. The handlers return before any state
  update, so a candidate selected earlier stays selected: here a text file is offered
  while a PDF is held, and the PDF is still the candidate afterwards.
\<close>

theorem rejected_file_keeps_prior_candidate:
  "file_state (fst (handleFileSelect whole_number_text maxFileSize_default (Some [text_file])
                      (holding pdf_file))) = Some pdf_file"
  by (simp add: handleFileSelect_def text_file_def holding_def)

text \<open>
  Claim C6, amended: for a file that is not a PDF or exceeds the maximum,
  \<open>handleFileSelect\<close> fires \<open>onUploadError\<close> once with the validation message and
  leaves the state of the component as it was, a prior candidate included;
  \<open>handleDrop\<close> does the same and clears \<open>dragActive\<close>. On the page (default maximum)
  neither path changes \<open>isUploading\<close> or starts a transmission.
\<close>

theorem invalid_file_rejected:
  "(f_type f \<noteq> ''application/pdf'' \<or> maxFileSize < f_size f \<longrightarrow>
      handleFileSelect numText maxFileSize (Some (f # fs)) st =
        (st, [OnUploadError (validation_error numText maxFileSize f)]) \<and>
      handleDrop numText maxFileSize (Some (f # fs)) st =
        (st\<lparr>dragActive := False\<rparr>, [OnUploadError (validation_error numText maxFileSize f)])) \<and>
   (f_type f \<noteq> ''application/pdf'' \<or> maxFileSize_default < f_size f \<longrightarrow>
      upload_st (step rt w (FileSelect (Some (f # fs)))) = upload_st w \<and>
      upload_st (step rt w (Drop (Some (f # fs)))) = (upload_st w)\<lparr>dragActive := False\<rparr> \<and>
      transmissions (step rt w (FileSelect (Some (f # fs)))) = transmissions w \<and>
      transmissions (step rt w (Drop (Some (f # fs)))) = transmissions w)"
  by (simp add: select_rejects drop_rejects)

text \<open>Witness for C6: a text file and a PDF of 6000000 bytes, offered while a PDF is held.\<close>

theorem invalid_file_rejected_witness:
  "f_type text_file \<noteq> ''application/pdf'' \<and>
   handleFileSelect whole_number_text maxFileSize_default (Some [text_file]) (holding pdf_file) =
     (holding pdf_file, [OnUploadError ''Only PDF files are allowed'']) \<and>
   maxFileSize_default < f_size big_pdf \<and>
   handleDrop whole_number_text maxFileSize_default (Some [big_pdf]) (holding pdf_file) =
     (holding pdf_file, [OnUploadError ''File size exceeds 5MB limit'']) \<and>
   transmissions (step exact_runtime init (FileSelect (Some [big_pdf]))) = []"
proof -
  have t: "f_type text_file \<noteq> ''application/pdf''"
    by (simp add: text_file_def)
  have b: "maxFileSize_default < f_size big_pdf"
    by (simp add: big_pdf_def maxFileSize_default_def)
  have d: "(holding pdf_file)\<lparr>dragActive := False\<rparr> = holding pdf_file"
    by (simp add: holding_def)
  from invalid_file_rejected [where f = text_file and maxFileSize = maxFileSize_default
              and numText = whole_number_text and fs = "[]" and st = "holding pdf_file"
              and rt = exact_runtime and w = init] t validation_error_text_file
  have 1: "handleFileSelect whole_number_text maxFileSize_default (Some [text_file])
             (holding pdf_file) = (holding pdf_file, [OnUploadError ''Only PDF files are allowed''])"
    by simp
  from invalid_file_rejected [where f = big_pdf and maxFileSize = maxFileSize_default
              and numText = whole_number_text and fs = "[]" and st = "holding pdf_file"
              and rt = exact_runtime and w = init] b validation_error_big_pdf d
  have 2: "handleDrop whole_number_text maxFileSize_default (Some [big_pdf]) (holding pdf_file) =
             (holding pdf_file, [OnUploadError ''File size exceeds 5MB limit''])"
    and 3: "transmissions (step exact_runtime init (FileSelect (Some [big_pdf]))) =
              transmissions init"
    by simp_all
  from t b 1 2 3 show ?thesis by (simp add: init_def)
qed

section \<open>Questions about a document\<close>

text \<open>
  Claim C7 says that every non-empty question submitted while a document identifier is
  set issues exactly one request with that identifier and the question, that a
  successful response appends the answer with its sources, and that a source's page
  number is rendered whenever it is present. The guard of \<open>handleChatSubmit\<close> is
  \<open>!documentId\<close>, which also holds for an identifier that is the empty string: here the
  upload response carries such an identifier, it is stored, and the question sent next
  issues no request and is answered by the refusal. And the page label is guarded by
  \<open>source.page &&\<close>: for page 0 the item shows the bare number after the title.
\<close>

theorem empty_identifier_blocks_question:
  "documentId (home_st nameless_page) = Some [] \<and>
   pending (step exact_runtime nameless_page SendMessage) = [] \<and>
   messages (home_st (step exact_runtime nameless_page SendMessage)) = [confirmation, refusal] \<and>
   render_source whole_number_text \<lparr>title = Some ''Q3-Report.pdf'', url = None, page = Some 0\<rparr>
     = ''Q3-Report.pdf0''"
proof -
  have "whole_number_text 0 = ''0''"
    by code_simp
  then show ?thesis
    by (simp add: nameless_page_eq init_def handleSendMessage_def send_blocked_def never_loading
        trim_question handleChatSubmit_begin_def refusal_def render_source_def source_label_def
        page_label_def)
qed

text \<open>
  Claim C7, amended: a question submitted while the document identifier is set and not
  the empty string appends the user's message and issues exactly one request, a POST to
  \<open>/api/query\<close> with content type \<open>application/json\<close> whose body holds that identifier
  and the question; on the page this adds one pending request for a question that is not
  blank. A successful response appends an assistant message with the returned answer
  and sources, each source is rendered as an item, and the item of a source whose page is
  present and not 0 ends with the page label.
\<close>

theorem question_with_document:
  assumes "documentId (home_st w) = Some d" and "d \<noteq> []"
  shows "handleChatSubmit_begin q (home_st w) =
           ((home_st w)\<lparr>messages := messages (home_st w) @ [user_message q]\<rparr>,
            Some (query_request d q)) \<and>
         f_url (query_request d q) = ''/api/query'' \<and>
         f_method (query_request d q) = ''POST'' \<and>
         f_headers (query_request d q) = [(''Content-Type'', ''application/json'')] \<and>
         f_body (query_request d q) = \<lparr>q_documentId = d, q_question = q\<rparr> \<and>
         (trim (input w) \<noteq> [] \<longrightarrow>
            pending (step rt w SendMessage) = pending w @ [query_request d (input w)]) \<and>
         messages (handleChatSubmit_resume (Responded True (Some data)) h) =
           messages h @ [\<lparr>msg_id = None, mtype = Assistant, content = answer data,
                          sources = a_sources data\<rparr>] \<and>
         render_sources numText \<lparr>msg_id = None, mtype = Assistant, content = answer data,
                                 sources = a_sources data\<rparr> =
           (case a_sources data of None \<Rightarrow> [] | Some ss \<Rightarrow> map (render_source numText) ss) \<and>
         (page s = Some p \<and> p \<noteq> 0 \<longrightarrow>
            render_source numText s = source_label s @ '' (page '' @ numText p @ '')'')"
  using assms
  by (simp add: handleChatSubmit_begin_def query_request_def send_with_document
      handleChatSubmit_resume_def render_sources_def render_source_def page_label_def)

text \<open>Witness for C7: the question about the uploaded report, answered with one source
  on page 12.\<close>

theorem question_with_document_witness:
  "documentId (home_st question_typed) = Some ''doc-1'' \<and>
   trim (input question_typed) \<noteq> [] \<and>
   pending (step exact_runtime question_typed SendMessage) =
     [query_request ''doc-1'' ''What is the revenue?''] \<and>
   messages (handleChatSubmit_resume (Responded True (Some the_answer)) (home_st question_typed)) =
     [confirmation,
      \<lparr>msg_id = None, mtype = Assistant, content = ''Revenue was 4.2M.'',
       sources = Some [cited]\<rparr>] \<and>
   page cited = Some 12 \<and>
   render_source whole_number_text cited = ''Q3-Report.pdf (page 12)''"
proof -
  have d: "documentId (home_st question_typed) = Some ''doc-1''"
    and i: "input question_typed = ''What is the revenue?''"
    and p: "pending question_typed = []"
    and m: "messages (home_st question_typed) = [confirmation]"
    by (simp_all add: question_typed_eq loaded_page_eq init_def)
  have n: "''doc-1'' \<noteq> []" by simp
  have t: "trim (input question_typed) \<noteq> []" by (simp add: i trim_question)
  have c: "page cited = Some 12 \<and> 12 \<noteq> (0::rat)" by (simp add: cited_def)
  have l: "source_label cited = ''Q3-Report.pdf''" by (simp add: source_label_def cited_def)
  have w: "whole_number_text 12 = ''12''" by code_simp
  from question_with_document [OF d n, where q = "''What is the revenue?''"
         and rt = exact_runtime and data = the_answer and h = "home_st question_typed"
         and numText = whole_number_text and s = cited and p = 12] t c
  have "pending (step exact_runtime question_typed SendMessage) =
          pending question_typed @ [query_request ''doc-1'' (input question_typed)]"
    and "messages (handleChatSubmit_resume (Responded True (Some the_answer))
            (home_st question_typed)) =
          messages (home_st question_typed) @
            [\<lparr>msg_id = None, mtype = Assistant, content = answer the_answer,
              sources = a_sources the_answer\<rparr>]"
    and "render_source whole_number_text cited =
          source_label cited @ '' (page '' @ whole_number_text 12 @ '')''"
    by blast+
  with d t c show ?thesis
    by (simp add: i p m l w the_answer_def)
qed

section \<open>Questions without a document\<close>



section \<open>The two ways to offer a file\<close>

text \<open>
  Claim C9: the picker path (\<open>handleFileSelect\<close>) and the drag-and-drop path
  (\<open>handleDrop\<close>) decide alike on every file list, fire the same callbacks with the
  same messages, and leave the same candidate, progress and uploading flag. The drop
  path differs in one cell only: it also ends the drag highlight (\<open>dragActive\<close>), which
  no check reads.
\<close>

theorem drop_decides_as_select:
  "snd (handleDrop numText maxFileSize files st) =
     snd (handleFileSelect numText maxFileSize files st) \<and>
   file_state (fst (handleDrop numText maxFileSize files st)) =
     file_state (fst (handleFileSelect numText maxFileSize files st)) \<and>
   isUploading (fst (handleDrop numText maxFileSize files st)) =
     isUploading (fst (handleFileSelect numText maxFileSize files st)) \<and>
   uploadProgress (fst (handleDrop numText maxFileSize files st)) =
     uploadProgress (fst (handleFileSelect numText maxFileSize files st)) \<and>
   fst (handleDrop numText maxFileSize files st) =
     (fst (handleFileSelect numText maxFileSize files st))\<lparr>dragActive := False\<rparr>"
  by (simp add: handleDrop_def handleFileSelect_def split: option.splits list.splits)

section \<open>The upload error channel\<close>



end
